theory Spec2Isabelle
  imports Main
begin

section \<open>Python values\<close>

text \<open>
  The module handles dynamically typed data: the dictionary that \<^verbatim>\<open>toml.load\<close> returns,
  the caller's \<^verbatim>\<open>global_params\<close> and \<^verbatim>\<open>environ_vars\<close> dictionaries, and the name and token
  read from the configuration document. They are values of one type; a dictionary is an
  association list with string keys (TOML keys and Ansible option names are strings).
  Floats and dates, which TOML also has, are left out: the module never inspects them.
\<close>

datatype pyval =
    VNone
  | VBool bool
  | VInt int
  | VStr string
  | VList "pyval list"
  | VDict "(string \<times> pyval) list"

type_synonym dict = "(string \<times> pyval) list"

text \<open>Truth value testing, as \<^verbatim>\<open>if x:\<close> does it.\<close>

fun truthy :: "pyval \<Rightarrow> bool" where
  "truthy VNone = False"
| "truthy (VBool b) = b"
| "truthy (VInt i) = (i \<noteq> 0)"
| "truthy (VStr s) = (s \<noteq> [])"
| "truthy (VList xs) = (xs \<noteq> [])"
| "truthy (VDict d) = (d \<noteq> [])"

text \<open>An optional dictionary parameter (\<^verbatim>\<open>None\<close> when not given) as a value.\<close>

fun opt_dict :: "dict option \<Rightarrow> pyval" where
  "opt_dict None = VNone"
| "opt_dict (Some d) = VDict d"

datatype py_exn = IndexError | KeyError | TypeError | TomlDecodeError | FileNotFoundError

text \<open>
  Subscription \<^verbatim>\<open>x[k]\<close> with a string key: a dictionary looks the key up and raises
  \<^verbatim>\<open>KeyError\<close> when it is missing; a list or a string accepts integer indices only, and
  the other values are not subscriptable: both raise \<^verbatim>\<open>TypeError\<close>.
\<close>

fun getitem_key :: "pyval \<Rightarrow> string \<Rightarrow> py_exn + pyval" where
  "getitem_key (VDict d) k = (case map_of d k of None \<Rightarrow> Inl KeyError | Some v \<Rightarrow> Inr v)"
| "getitem_key v k = Inl TypeError"

text \<open>
  Subscription \<^verbatim>\<open>x[0]\<close>: the first element of a list, the first character of a string,
  \<^verbatim>\<open>IndexError\<close> when either is empty; a dictionary has string keys only, so the key 0
  is missing from it.
\<close>

fun getitem_0 :: "pyval \<Rightarrow> py_exn + pyval" where
  "getitem_0 (VList []) = Inl IndexError"
| "getitem_0 (VList (x # xs)) = Inr x"
| "getitem_0 (VStr []) = Inl IndexError"
| "getitem_0 (VStr (c # cs)) = Inr (VStr [c])"
| "getitem_0 (VDict d) = Inl KeyError"
| "getitem_0 v = Inl TypeError"

text \<open>
  \<^verbatim>\<open>re.search(pattern, text, re.MULTILINE)\<close> for the two patterns of the module, which
  consist of letters and spaces: the pattern matches where it occurs as a substring.
\<close>

fun re_search :: "string \<Rightarrow> string \<Rightarrow> bool" where
  "re_search pat [] = (pat = [])"
| "re_search pat (c # cs) = (take (length pat) (c # cs) = pat \<or> re_search pat cs)"

section \<open>States of the runner\<close>

datatype RunnerState = REREGISTERED | REGISTERED | UNREGISTERED | TOKEN_MISMATCH | NAME_MISMATCH

text \<open>The \<^verbatim>\<open>value\<close> of an enumeration member.\<close>

fun state_value :: "RunnerState \<Rightarrow> string" where
  "state_value REREGISTERED = ''Reregistered''"
| "state_value REGISTERED = ''Registered''"
| "state_value UNREGISTERED = ''Unregistered''"
| "state_value TOKEN_MISMATCH = ''Token Mismatch''"
| "state_value NAME_MISMATCH = ''Runner Name Mismatch''"

section \<open>The module's parameters and the Runner object\<close>

text \<open>
  \<^verbatim>\<open>get_default_globals\<close> and the entry of \<^verbatim>\<open>make_argument_spec\<close> that uses it:
  \<^verbatim>\<open>global_params=dict(type="dict", default=get_default_globals())\<close>. An option with a
  default takes the default when the caller does not give the option, and the caller's value
  otherwise; \<open>params_global_params\<close> is the resulting \<^verbatim>\<open>module.params["global_params"]\<close>.
\<close>

definition get_default_globals :: dict where
  "get_default_globals =
     [(''concurrent'', VInt 1),
      (''check_interval'', VInt 0),
      (''connection_max_age'', VStr ''15m0s''),
      (''shutdown_timeout'', VInt 0),
      (''session_server'', VDict [(''session_timeout'', VInt 1800)])]"

definition params_global_params :: "dict option \<Rightarrow> dict option" where
  "params_global_params supplied =
     (case supplied of None \<Rightarrow> Some get_default_globals | Some d \<Rightarrow> Some d)"

text \<open>\<^verbatim>\<open>module.params\<close>, after the argument specification has been applied.\<close>

record params =
  state :: string
  api_url :: string
  token :: string
  name :: string
  executor :: "string option"
  default_image :: "string option"
  environ_vars :: "dict option"
  global_params :: "dict option"
  template_file :: "string option"
  recreate :: bool

text \<open>
  The \<^verbatim>\<open>Runner\<close> object: the parameters, the three fields the methods update, and
  \<open>bin\<close>, the path that \<^verbatim>\<open>get_binary\<close> found.
\<close>

record runner = params +
  warnings :: "string list"
  current_name :: pyval
  command_results :: "string \<rightharpoonup> pyval"
  bin :: string

definition Runner_init :: "params \<Rightarrow> string \<Rightarrow> runner" where
  "Runner_init p b =
     \<lparr>state = state p, api_url = api_url p, token = token p, name = name p,
      executor = executor p, default_image = default_image p,
      environ_vars = environ_vars p, global_params = global_params p,
      template_file = template_file p, recreate = recreate p,
      warnings = [], current_name = VNone, command_results = Map.empty, bin = b\<rparr>"

section \<open>The host: files, the external binary, library functions\<close>

text \<open>
  The two files the module looks at: whether \<^verbatim>\<open>RUNNER_ID\<close> exists, and the text of
  \<^verbatim>\<open>RUNNER_CONFIG\<close> when it exists.
\<close>

record world =
  runner_id :: bool
  runner_config :: "string option"

text \<open>
  What is outside the module is a parameter of the model: the external binary, run
  through \<^verbatim>\<open>module.run_command\<close>, answers with exit code, standard output and standard
  error and may change the files; \<^verbatim>\<open>toml.load\<close> either decodes a text or raises
  \<^verbatim>\<open>TomlDecodeError\<close> (\<open>None\<close>); \<^verbatim>\<open>toml.dump\<close> and Ansible's \<^verbatim>\<open>to_text\<close> produce
  text.
\<close>

record sys =
  ext_run :: "pyval list \<Rightarrow> (string \<times> string) list option \<Rightarrow> world
                \<Rightarrow> (int \<times> string \<times> string) \<times> world"
  ext_toml_load :: "string \<Rightarrow> dict option"
  ext_toml_dump :: "dict \<Rightarrow> string"
  ext_to_text :: "pyval \<Rightarrow> string"

text \<open>
  The effects of an invocation on its host, in the order in which they happen: a command
  run with its environment update, and the three steps of \<^verbatim>\<open>make_start_config\<close>.
\<close>

datatype event =
    RunCommand "pyval list" "(string \<times> string) list option"
  | Mkstemp
  | TomlDump dict
  | AtomicMove

record st =
  self :: runner
  fs :: world
  trace :: "event list"

text \<open>
  How an invocation ends: \<^verbatim>\<open>exit_json\<close> with the results, \<^verbatim>\<open>fail_json\<close> with its
  message and the optional \<^verbatim>\<open>stdout\<close> and \<^verbatim>\<open>stderr\<close>, or an exception nobody catches.
\<close>

datatype exit =
    ExitJson "string \<rightharpoonup> pyval"
  | FailJson string "string option" "string option"
  | Raised py_exn

text \<open>
  \<^verbatim>\<open>module.run_command\<close> with a list of arguments drops the arguments that are \<^verbatim>\<open>None\<close>
  and expands each of the others as a path, which raises \<^verbatim>\<open>TypeError\<close> for a value that
  is not a string; nothing catches it, and the binary is not started. With strings only,
  the binary runs and answers.
\<close>

fun is_str :: "pyval \<Rightarrow> bool" where
  "is_str (VStr s) = True"
| "is_str v = False"

definition run_command ::
  "sys \<Rightarrow> pyval list \<Rightarrow> (string \<times> string) list option \<Rightarrow> st
     \<Rightarrow> py_exn + ((int \<times> string \<times> string) \<times> st)" where
  "run_command sys cmd env s =
     (let args = filter (\<lambda>x. x \<noteq> VNone) cmd in
      if list_all is_str args then
        (case ext_run sys args env (fs s) of
           (res, w) \<Rightarrow> Inr (res, s\<lparr>fs := w, trace := trace s @ [RunCommand args env]\<rparr>))
      else Inl TypeError)"

section \<open>The methods of Runner\<close>

definition load_config_content :: "sys \<Rightarrow> st \<Rightarrow> py_exn + dict" where
  "load_config_content sys s =
     (case runner_config (fs s) of
        None \<Rightarrow> Inl FileNotFoundError
      | Some text \<Rightarrow>
          (case ext_toml_load sys text of
             None \<Rightarrow> Inl TomlDecodeError
           | Some config \<Rightarrow> Inr config))"

definition make_start_config :: "sys \<Rightarrow> st \<Rightarrow> st" where
  "make_start_config sys s =
     (if truthy (opt_dict (global_params (self s))) then
        (case global_params (self s) of
           None \<Rightarrow> s
         | Some gp \<Rightarrow>
             s\<lparr>fs := (fs s)\<lparr>runner_config := Some (ext_toml_dump sys gp)\<rparr>,
               trace := trace s @ [Mkstemp, TomlDump gp, AtomicMove]\<rparr>)
      else s)"

definition verify_config_exists :: "st \<Rightarrow> exit + bool" where
  "verify_config_exists s =
     (if \<not> runner_id (fs s) then
        Inl (FailJson ''Runner didn't initialize it's runner_id.'' None None)
      else if runner_config (fs s) = None then Inr False
      else Inr True)"

text \<open>The body of the \<^verbatim>\<open>try\<close> block of \<^verbatim>\<open>get_state\<close>: the name and the token read.\<close>

definition runner_section :: "dict \<Rightarrow> py_exn + (pyval \<times> pyval)" where
  "runner_section config =
     (case getitem_key (VDict config) ''runners'' of
        Inl e \<Rightarrow> Inl e
      | Inr runners \<Rightarrow>
          (case getitem_0 runners of
             Inl e \<Rightarrow> Inl e
           | Inr section \<Rightarrow>
               (case getitem_key section ''name'' of
                  Inl e \<Rightarrow> Inl e
                | Inr runner_name \<Rightarrow>
                    (case getitem_key section ''token'' of
                       Inl e \<Rightarrow> Inl e
                     | Inr runner_token \<Rightarrow> Inr (runner_name, runner_token)))))"

definition get_state :: "st \<Rightarrow> dict \<Rightarrow> py_exn + (RunnerState \<times> st)" where
  "get_state s config =
     (case runner_section config of
        Inl IndexError \<Rightarrow> Inr (UNREGISTERED, s)
      | Inl KeyError \<Rightarrow> Inr (UNREGISTERED, s)
      | Inl e \<Rightarrow> Inl e
      | Inr (runner_name, runner_token) \<Rightarrow>
          if runner_token \<noteq> VStr (token (self s)) then Inr (TOKEN_MISMATCH, s)
          else if runner_name \<noteq> VStr (name (self s)) then
            Inr (REGISTERED,
                 s\<lparr>self := (self s)
                     \<lparr>warnings := warnings (self s)
                        @ [state_value NAME_MISMATCH @ ''. Perhaps re-registration required.''],
                      current_name := runner_name\<rparr>\<rparr>)
          else Inr (REGISTERED, s))"

text \<open>The command line and the environment that \<^verbatim>\<open>register_runner\<close> builds.\<close>

definition register_cmd :: "runner \<Rightarrow> pyval list" where
  "register_cmd r =
     map VStr
       ([bin r, ''register'', ''--non-interactive'']
        @ [''--url'', api_url r]
        @ [''--token'', token r]
        @ [''--name'', name r]
        @ (case executor r of
             Some e \<Rightarrow> if truthy (VStr e) then [''--executor'', e] else []
           | None \<Rightarrow> [])
        @ (case default_image r of
             Some i \<Rightarrow> if truthy (VStr i) then [''--docker-image'', i] else []
           | None \<Rightarrow> [])
        @ (case template_file r of
             Some t \<Rightarrow> if truthy (VStr t) then [''--template-config'', t] else []
           | None \<Rightarrow> []))"

definition register_env :: "sys \<Rightarrow> runner \<Rightarrow> (string \<times> string) list option" where
  "register_env sys r =
     (case environ_vars r of
        Some ev \<Rightarrow>
          if truthy (VDict ev) then Some (map (\<lambda>(k, v). (k, ext_to_text sys v)) ev) else None
      | None \<Rightarrow> None)"

definition register_runner :: "sys \<Rightarrow> st \<Rightarrow> exit option \<times> st" where
  "register_runner sys s =
     (case run_command sys (register_cmd (self s)) (register_env sys (self s)) s of
        Inl x \<Rightarrow> (Some (Raised x), s)
      | Inr ((rc, stdout, stderr), s') \<Rightarrow>
          if rc \<noteq> 0 then
            (Some (FailJson ''Error while registering runner'' (Some stdout) (Some stderr)), s')
          else (None, s'))"

definition unregister_cmd :: "runner \<Rightarrow> pyval list" where
  "unregister_cmd r =
     [VStr (bin r), VStr ''unregister'']
     @ [VStr ''--name'', if truthy (current_name r) then current_name r else VStr (name r)]"

definition unregister_runner :: "sys \<Rightarrow> st \<Rightarrow> exit option \<times> st" where
  "unregister_runner sys s =
     (case run_command sys (unregister_cmd (self s)) None s of
        Inl x \<Rightarrow> (Some (Raised x), s)
      | Inr ((rc, stdout, stderr), s') \<Rightarrow>
          if rc \<noteq> 0 then
            (Some (FailJson ''Error while unregistering runner'' (Some stdout) (Some stderr)), s')
          else (None, s'))"

definition check_service :: "sys \<Rightarrow> st \<Rightarrow> exit option \<times> st" where
  "check_service sys s =
     (case run_command sys [VStr (bin (self s)), VStr ''status''] None s of
        Inl x \<Rightarrow> (Some (Raised x), s)
      | Inr ((rc, stdout, stderr), s') \<Rightarrow>
          if rc \<noteq> 0 then
            (if re_search ''Service has stopped'' stderr then
               (Some (FailJson ''Service(systemd) not running.'' None None), s')
             else
               (Some (FailJson ''gitlab-runner can't get status'' (Some stdout) (Some stderr)), s'))
          else if \<not> re_search ''Service is running'' stdout then
            (Some (FailJson ''Gitlab-Runner service not running! Ensure service is up.''
                     (Some stdout) (Some stderr)), s')
          else (None, s'))"

definition do_disable :: "sys \<Rightarrow> st \<Rightarrow> exit option \<times> st" where
  "do_disable sys s = unregister_runner sys s"

definition do_enable :: "sys \<Rightarrow> st \<Rightarrow> exit option \<times> st" where
  "do_enable sys s = register_runner sys (make_start_config sys s)"

definition do_reenable :: "sys \<Rightarrow> st \<Rightarrow> exit option \<times> st" where
  "do_reenable sys s =
     (case unregister_runner sys s of
        (Some e, s') \<Rightarrow> (Some e, s')
      | (None, s') \<Rightarrow> do_enable sys s')"

section \<open>The entry point\<close>

text \<open>\<^verbatim>\<open>self.command_results[k] = v\<close>.\<close>

definition set_result :: "string \<Rightarrow> pyval \<Rightarrow> st \<Rightarrow> st" where
  "set_result k v s = s\<lparr>self := (self s)\<lparr>command_results := (command_results (self s))(k \<mapsto> v)\<rparr>\<rparr>"

text \<open>
  \<^verbatim>\<open>act\<close> in its three parts. First the checks and the observation, up to the value of
  \<^verbatim>\<open>state_before\<close>.
\<close>

definition observe :: "sys \<Rightarrow> st \<Rightarrow> (exit + RunnerState) \<times> st" where
  "observe sys s =
     (case check_service sys s of
        (Some e, s1) \<Rightarrow> (Inl e, s1)
      | (None, s1) \<Rightarrow>
          (case verify_config_exists s1 of
             Inl e \<Rightarrow> (Inl e, s1)
           | Inr config_exists \<Rightarrow>
               if config_exists then
                 (case load_config_content sys s1 of
                    Inl x \<Rightarrow> (Inl (Raised x), s1)
                  | Inr config_content \<Rightarrow>
                      (case get_state s1 config_content of
                         Inl x \<Rightarrow> (Inl (Raised x), s1)
                       | Inr (state_before, s2) \<Rightarrow> (Inr state_before, s2)))
               else (Inr UNREGISTERED, s1)))"

text \<open>
  Then the branches on \<^verbatim>\<open>self.state\<close> and \<^verbatim>\<open>state_before\<close>, up to the value of
  \<^verbatim>\<open>state_after\<close> (\<open>None\<close> where no branch assigns it).
\<close>

definition after_action ::
  "exit option \<times> st \<Rightarrow> RunnerState \<Rightarrow> string \<Rightarrow> (exit + RunnerState option) \<times> st" where
  "after_action res state_after message =
     (case res of
        (Some e, s') \<Rightarrow> (Inl e, s')
      | (None, s') \<Rightarrow> (Inr (Some state_after), set_result ''msg'' (VStr message) s'))"

definition transition :: "sys \<Rightarrow> st \<Rightarrow> RunnerState \<Rightarrow> (exit + RunnerState option) \<times> st" where
  "transition sys s state_before =
     (if state (self s) = ''present'' then
        (if state_before = UNREGISTERED then
           after_action (do_enable sys s) REGISTERED ''Init registering Runner''
         else if state_before = TOKEN_MISMATCH then
           after_action (do_reenable sys s) REREGISTERED
             ''Reregistering Runner due to Token mismatch''
         else if state_before = REGISTERED then
           (if recreate (self s) then
              after_action (do_reenable sys s) REREGISTERED
                ''Force reregistering Runner due to recreate option''
            else (Inr None, s))
         else (Inr None, s))
      else if state (self s) = ''absent'' then
        (if state_before = REGISTERED then
           after_action (do_disable sys s) UNREGISTERED ''Unregistering Runner''
         else (Inr None, s))
      else (Inr None, s))"

text \<open>Last the results: the state reported, the warnings, the changed flag, and the exit.\<close>

definition report :: "st \<Rightarrow> RunnerState \<Rightarrow> RunnerState option \<Rightarrow> exit \<times> st" where
  "report s state_before state_after =
     (let s1 = (case state_after of
                  Some a \<Rightarrow> set_result ''runner_state'' (VStr (state_value a)) s
                | None \<Rightarrow> set_result ''runner_state'' (VStr (state_value state_before)) s);
          s2 = (if warnings (self s1) \<noteq> []
                then set_result ''warnings'' (VList (map VStr (warnings (self s1)))) s1
                else s1);
          s3 = set_result ''changed''
                 (VBool (Some (VStr (state_value state_before))
                           \<noteq> command_results (self s2) ''runner_state'')) s2
      in (ExitJson (command_results (self s3)), s3))"

definition act :: "sys \<Rightarrow> st \<Rightarrow> exit \<times> st" where
  "act sys s =
     (case observe sys s of
        (Inl e, s1) \<Rightarrow> (e, s1)
      | (Inr state_before, s1) \<Rightarrow>
          (case transition sys s1 state_before of
             (Inl e, s2) \<Rightarrow> (e, s2)
           | (Inr state_after, s2) \<Rightarrow> report s2 state_before state_after))"

text \<open>
  An invocation: the object as \<^verbatim>\<open>__init__\<close> leaves it, on a host with nothing done yet.
\<close>

definition start :: "params \<Rightarrow> string \<Rightarrow> world \<Rightarrow> st" where
  "start p b w = \<lparr>self = Runner_init p b, fs = w, trace = []\<rparr>"

section \<open>Vocabulary of the properties\<close>

text \<open>The entry \<open>k\<close> of the results that \<^verbatim>\<open>exit_json\<close> receives.\<close>

fun result_of :: "exit \<Rightarrow> string \<Rightarrow> pyval option" where
  "result_of (ExitJson res) k = res k"
| "result_of e k = None"

text \<open>The commands of a trace, and those among them that register or unregister.\<close>

fun command_of :: "event \<Rightarrow> (pyval list \<times> (string \<times> string) list option) option" where
  "command_of (RunCommand cmd env) = Some (cmd, env)"
| "command_of e = None"

definition commands_run :: "event list \<Rightarrow> (pyval list \<times> (string \<times> string) list option) list" where
  "commands_run tr = List.map_filter command_of tr"

datatype action = Register | Unregister

fun subcommand :: "pyval list \<Rightarrow> string" where
  "subcommand (b # VStr sub # rest) = sub"
| "subcommand cmd = []"

fun action_of :: "event \<Rightarrow> action option" where
  "action_of (RunCommand cmd env) =
     (if subcommand cmd = ''register'' then Some Register
      else if subcommand cmd = ''unregister'' then Some Unregister
      else None)"
| "action_of e = None"

definition external_actions :: "event list \<Rightarrow> action list" where
  "external_actions tr = List.map_filter action_of tr"


section \<open>Example hosts\<close>

text \<open>
  Concrete inputs on which the theorems are exercised: parameters for the runner \<open>host1\<close>, a
  host whose status query gives a chosen answer while \<^verbatim>\<open>register\<close> and \<^verbatim>\<open>unregister\<close>
  succeed, and a configuration document with one runner entry.
\<close>

definition example_params :: params where
  "example_params =
     \<lparr>state = ''present'', api_url = ''https://gitlab.example.com'', token = ''glrt-new'',
      name = ''host1'', executor = Some ''docker'', default_image = None,
      environ_vars = None, global_params = params_global_params None,
      template_file = None, recreate = False\<rparr>"

definition example_bin :: string where
  "example_bin = ''/usr/bin/gitlab-runner''"

definition service_running :: "int \<times> string \<times> string" where
  "service_running = (0, ''gitlab-runner: Service is running'', [])"

definition service_stopped :: "int \<times> string \<times> string" where
  "service_stopped = (1, [], ''gitlab-runner: Service has stopped'')"

definition example_sys :: "int \<times> string \<times> string \<Rightarrow> dict option \<Rightarrow> sys" where
  "example_sys status_answer document =
     \<lparr>ext_run = (\<lambda>cmd env w.
                  if subcommand cmd = ''status'' then (status_answer, w) else ((0, [], []), w)),
      ext_toml_load = (\<lambda>text. document),
      ext_toml_dump = (\<lambda>d. ''concurrent = 1''),
      ext_to_text = (\<lambda>v. [])\<rparr>"

text \<open>A host on which the service runs and one subcommand of the binary fails.\<close>

definition failing_sys :: "string \<Rightarrow> dict option \<Rightarrow> sys" where
  "failing_sys sub document =
     \<lparr>ext_run = (\<lambda>cmd env w.
                  if subcommand cmd = ''status'' then (service_running, w)
                  else if subcommand cmd = sub then ((1, [], ''ERROR: failed''), w)
                  else ((0, [], []), w)),
      ext_toml_load = (\<lambda>text. document),
      ext_toml_dump = (\<lambda>d. ''concurrent = 1''),
      ext_to_text = (\<lambda>v. [])\<rparr>"

definition example_world :: "string option \<Rightarrow> world" where
  "example_world text = \<lparr>runner_id = True, runner_config = text\<rparr>"

definition example_document :: "pyval \<Rightarrow> pyval \<Rightarrow> dict" where
  "example_document n t =
     [(''concurrent'', VInt 1), (''runners'', VList [VDict [(''name'', n), (''token'', t)]])]"


section \<open>Defaults of the global settings\<close>

text \<open>
  C9. A caller that gives no \<^verbatim>\<open>global_params\<close> runs with the default mapping, which is
  exactly: concurrent = 1, check_interval = 0, connection_max_age = "15m0s",
  shutdown_timeout = 0 and session_server.session_timeout = 1800.
\<close>

theorem default_globals_applied:
  "params_global_params None =
     Some [(''concurrent'', VInt 1),
           (''check_interval'', VInt 0),
           (''connection_max_age'', VStr ''15m0s''),
           (''shutdown_timeout'', VInt 0),
           (''session_server'', VDict [(''session_timeout'', VInt 1800)])]"
  by (simp add: params_global_params_def get_default_globals_def)

section \<open>Effects of the methods\<close>


lemma run_command_effect:
  "run_command sys cmd env s = Inr (res, s') \<Longrightarrow>
     self s' = self s \<and> trace s' = trace s @ [RunCommand (filter (\<lambda>x. x \<noteq> VNone) cmd) env]
     \<and> (res, fs s') = ext_run sys (filter (\<lambda>x. x \<noteq> VNone) cmd) env (fs s)"
  by (auto simp: run_command_def Let_def split: prod.splits if_splits)

lemma run_command_raises:
  "run_command sys cmd env s = Inl x \<Longrightarrow> x = TypeError"
  by (auto simp: run_command_def Let_def split: prod.splits if_splits)

lemma strings_run:
  "filter (\<lambda>x. x \<noteq> VNone) (map VStr xs) = map VStr xs" "list_all is_str (map VStr xs)"
  by (induction xs) simp_all

lemma run_command_strings:
  "run_command sys (map VStr xs) env s =
     (case ext_run sys (map VStr xs) env (fs s) of
        (res, w) \<Rightarrow> Inr (res, s\<lparr>fs := w, trace := trace s @ [RunCommand (map VStr xs) env]\<rparr>))"
  by (simp add: run_command_def Let_def strings_run)

lemma unregister_cmd_no_None:
  "filter (\<lambda>x. x \<noteq> VNone) (unregister_cmd r) = unregister_cmd r"
  by (cases "current_name r") (simp_all add: unregister_cmd_def)

lemma unregister_runner_effect:
  assumes "unregister_runner sys s = (e, s')"
  shows "self s' = self s"
    and "trace s' = trace s @ [RunCommand (unregister_cmd (self s)) None]
         \<or> (e = Some (Raised TypeError) \<and> s' = s)"
    and "e = None \<Longrightarrow> trace s' = trace s @ [RunCommand (unregister_cmd (self s)) None]"
  using assms
  by (auto simp: unregister_runner_def unregister_cmd_no_None
           split: sum.splits prod.splits if_splits
           dest: run_command_effect run_command_raises)

lemma register_runner_effect:
  "register_runner sys s = (e, s') \<Longrightarrow>
     self s' = self s
     \<and> trace s' = trace s @ [RunCommand (register_cmd (self s)) (register_env sys (self s))]"
  unfolding register_runner_def register_cmd_def run_command_strings
  by (auto split: prod.splits if_splits)

lemma make_start_config_self: "self (make_start_config sys s) = self s"
  by (simp add: make_start_config_def split: option.splits)

lemma run_status:
  "run_command sys [VStr b, VStr ''status''] env s =
     (case ext_run sys [VStr b, VStr ''status''] env (fs s) of
        (res, w) \<Rightarrow>
          Inr (res, s\<lparr>fs := w, trace := trace s @ [RunCommand [VStr b, VStr ''status''] env]\<rparr>))"
  using run_command_strings [of sys "[b, ''status'']" env s] by simp

lemma check_service_effect:
  "check_service sys s = (e, s') \<Longrightarrow>
     self s' = self s \<and> trace s' = trace s @ [RunCommand [VStr (bin (self s)), VStr ''status''] None]"
  unfolding check_service_def run_status
  by (auto split: prod.splits if_splits)

lemma external_actions_append:
  "external_actions (xs @ ys) = external_actions xs @ external_actions ys"
  by (simp add: external_actions_def map_filter_def)

lemma commands_run_append:
  "commands_run (xs @ ys) = commands_run xs @ commands_run ys"
  by (simp add: commands_run_def map_filter_def)

lemma external_actions_unregister:
  "external_actions [RunCommand (unregister_cmd r) env] = [Unregister]"
  by (simp add: external_actions_def map_filter_def unregister_cmd_def)

lemma external_actions_register:
  "external_actions [RunCommand (register_cmd r) env] = [Register]"
  by (simp add: external_actions_def map_filter_def register_cmd_def)

lemma external_actions_status:
  "external_actions [RunCommand [VStr b, VStr ''status''] env] = []"
  by (simp add: external_actions_def map_filter_def)

lemma make_start_config_actions:
  "external_actions (trace (make_start_config sys s)) = external_actions (trace s)"
  "commands_run (trace (make_start_config sys s)) = commands_run (trace s)"
  by (simp_all add: make_start_config_def external_actions_def commands_run_def map_filter_def split: option.splits)

lemma do_enable_effect:
  "do_enable sys s = (e, s') \<Longrightarrow>
     self s' = self s
     \<and> trace s' = trace (make_start_config sys s)
          @ [RunCommand (register_cmd (self s)) (register_env sys (self s))]"
  by (auto simp: do_enable_def make_start_config_self dest!: register_runner_effect)

lemma do_reenable_cases:
  assumes "do_reenable sys s = (e, s')"
  shows "(\<exists>x. e = Some x \<and> unregister_runner sys s = (Some x, s'))
         \<or> (\<exists>s1. unregister_runner sys s = (None, s1) \<and> do_enable sys s1 = (e, s'))"
  using assms by (auto simp: do_reenable_def split: prod.splits option.splits)

lemma do_reenable_done:
  assumes "do_reenable sys s = (None, s')"
  shows "self s' = self s"
    and "\<exists>s1. trace s1 = trace s @ [RunCommand (unregister_cmd (self s)) None]
           \<and> trace s' = trace (make_start_config sys s1)
                @ [RunCommand (register_cmd (self s)) (register_env sys (self s))]"
proof -
  from do_reenable_cases [OF assms] obtain s1
    where u: "unregister_runner sys s = (None, s1)" and e: "do_enable sys s1 = (None, s')"
    by auto
  from unregister_runner_effect(1,3) [OF u] do_enable_effect [OF e]
  show "self s' = self s" by simp
  from unregister_runner_effect(1,3) [OF u] do_enable_effect [OF e]
  show "\<exists>s1. trace s1 = trace s @ [RunCommand (unregister_cmd (self s)) None]
           \<and> trace s' = trace (make_start_config sys s1)
                @ [RunCommand (register_cmd (self s)) (register_env sys (self s))]"
    by auto
qed

lemma transition_done:
  assumes "transition sys s sb = (Inr sa, s')"
  shows "(sa = None \<and> s' = s
          \<and> \<not> (state (self s) = ''present'' \<and> sb = UNREGISTERED)
          \<and> \<not> (state (self s) = ''present'' \<and> sb = TOKEN_MISMATCH)
          \<and> \<not> (state (self s) = ''present'' \<and> sb = REGISTERED \<and> recreate (self s))
          \<and> \<not> (state (self s) = ''absent'' \<and> sb = REGISTERED))
       \<or> (\<exists>s2. state (self s) = ''present'' \<and> sb = UNREGISTERED \<and> do_enable sys s = (None, s2)
              \<and> sa = Some REGISTERED \<and> s' = set_result ''msg'' (VStr ''Init registering Runner'') s2)
       \<or> (\<exists>s2. state (self s) = ''present'' \<and> sb = TOKEN_MISMATCH \<and> do_reenable sys s = (None, s2)
              \<and> sa = Some REREGISTERED
              \<and> s' = set_result ''msg'' (VStr ''Reregistering Runner due to Token mismatch'') s2)
       \<or> (\<exists>s2. state (self s) = ''present'' \<and> sb = REGISTERED \<and> recreate (self s)
              \<and> do_reenable sys s = (None, s2) \<and> sa = Some REREGISTERED
              \<and> s' = set_result ''msg'' (VStr ''Force reregistering Runner due to recreate option'') s2)
       \<or> (\<exists>s2. state (self s) = ''absent'' \<and> sb = REGISTERED \<and> unregister_runner sys s = (None, s2)
              \<and> sa = Some UNREGISTERED \<and> s' = set_result ''msg'' (VStr ''Unregistering Runner'') s2)"
  using assms
  by (auto simp: transition_def after_action_def do_disable_def
           split: if_splits prod.splits option.splits)

lemma get_state_effect:
  assumes "get_state s config = Inr (sb, s')"
  shows "trace s' = trace s" and "fs s' = fs s"
    and "sb \<in> {UNREGISTERED, TOKEN_MISMATCH, REGISTERED}"
    and "params.truncate (self s') = params.truncate (self s)"
    and "bin (self s') = bin (self s)"
    and "command_results (self s') = command_results (self s)"
  using assms
  by (auto simp: get_state_def params.truncate_def
           split: sum.splits py_exn.splits prod.splits if_splits)

lemma observe_cases:
  assumes "observe sys s = (Inr sb, s2)"
  shows "\<exists>s1. check_service sys s = (None, s1)
           \<and> ((verify_config_exists s1 = Inr False \<and> sb = UNREGISTERED \<and> s2 = s1)
              \<or> (\<exists>config. verify_config_exists s1 = Inr True
                    \<and> load_config_content sys s1 = Inr config
                    \<and> get_state s1 config = Inr (sb, s2)))"
  using assms
  by (auto simp: observe_def split: prod.splits option.splits sum.splits if_splits)

lemma observe_effect:
  assumes "observe sys s = (Inr sb, s2)"
  shows "trace s2 = trace s @ [RunCommand [VStr (bin (self s)), VStr ''status''] None]"
    and "sb \<in> {UNREGISTERED, TOKEN_MISMATCH, REGISTERED}"
    and "params.truncate (self s2) = params.truncate (self s)"
    and "bin (self s2) = bin (self s)"
    and "command_results (self s2) = command_results (self s)"
proof -
  from observe_cases [OF assms] obtain s1 where
    c: "check_service sys s = (None, s1)" and
    d: "(sb = UNREGISTERED \<and> s2 = s1) \<or> (\<exists>config. get_state s1 config = Inr (sb, s2))"
    by auto
  note e = check_service_effect [OF c]
  from d e show "trace s2 = trace s @ [RunCommand [VStr (bin (self s)), VStr ''status''] None]"
    by (auto dest: get_state_effect(1))
  from d show "sb \<in> {UNREGISTERED, TOKEN_MISMATCH, REGISTERED}"
    by (auto dest: get_state_effect(3))
  from d e show "params.truncate (self s2) = params.truncate (self s)"
    by (auto dest: get_state_effect(4))
  from d e show "bin (self s2) = bin (self s)"
    by (auto dest: get_state_effect(5))
  from d e show "command_results (self s2) = command_results (self s)"
    by (auto dest: get_state_effect(6))
qed

lemma truncate_fields:
  assumes "params.truncate r' = params.truncate r"
  shows "state r' = state r" and "recreate r' = recreate r" and "name r' = name r"
    and "token r' = token r" and "global_params r' = global_params r"
    and "api_url r' = api_url r" and "executor r' = executor r"
    and "default_image r' = default_image r" and "template_file r' = template_file r"
    and "environ_vars r' = environ_vars r"
  using assms by (simp_all add: params.truncate_def)

lemma state_value_inject: "state_value a = state_value b \<longleftrightarrow> a = b"
  by (cases a; cases b; simp)

lemma report_effect:
  assumes "report s sb sa = (e, s')"
  shows "e = ExitJson (command_results (self s'))"
    and "trace s' = trace s"
    and "fs s' = fs s"
    and "command_results (self s') ''runner_state''
           = Some (VStr (state_value (case sa of Some a \<Rightarrow> a | None \<Rightarrow> sb)))"
    and "command_results (self s') ''changed''
           = Some (VBool (sb \<noteq> (case sa of Some a \<Rightarrow> a | None \<Rightarrow> sb)))"
    and "command_results (self s') ''msg'' = command_results (self s) ''msg''"
    and "command_results (self s') ''warnings''
           = (if warnings (self s) \<noteq> [] then Some (VList (map VStr (warnings (self s))))
              else command_results (self s) ''warnings'')"
    and "warnings (self s') = warnings (self s)"
    and "current_name (self s') = current_name (self s)"
  using assms
  by (auto simp: report_def set_result_def Let_def state_value_inject split: option.splits)

lemma check_service_fails:
  "check_service sys s = (Some e, s') \<Longrightarrow> e \<noteq> ExitJson res"
  unfolding check_service_def run_status
  by (auto split: prod.splits if_splits)

lemma unregister_runner_fails:
  "unregister_runner sys s = (Some e, s') \<Longrightarrow> e \<noteq> ExitJson res"
  by (auto simp: unregister_runner_def split: sum.splits prod.splits if_splits)

lemma register_runner_fails:
  "register_runner sys s = (Some e, s') \<Longrightarrow> e \<noteq> ExitJson res"
  by (auto simp: register_runner_def split: sum.splits prod.splits if_splits)

lemma do_reenable_fails:
  "do_reenable sys s = (Some e, s') \<Longrightarrow> e \<noteq> ExitJson res"
  by (auto simp: do_enable_def dest!: do_reenable_cases
           dest: unregister_runner_fails register_runner_fails)

lemma observe_fails:
  "observe sys s = (Inl e, s') \<Longrightarrow> e \<noteq> ExitJson res"
  by (auto simp: observe_def verify_config_exists_def
           split: prod.splits option.splits sum.splits if_splits
           dest: check_service_fails)

lemma transition_fails:
  "transition sys s sb = (Inl e, s') \<Longrightarrow> e \<noteq> ExitJson res"
  by (auto simp: transition_def after_action_def do_disable_def do_enable_def
           split: if_splits prod.splits option.splits
           dest: do_reenable_fails unregister_runner_fails register_runner_fails)

lemma act_done:
  assumes "act sys s = (ExitJson res, s')"
  obtains sb s1 sa s2 where "observe sys s = (Inr sb, s1)"
    and "transition sys s1 sb = (Inr sa, s2)"
    and "report s2 sb sa = (ExitJson res, s')"
  using assms
  by (auto simp: act_def split: prod.splits sum.splits dest: observe_fails transition_fails)

lemma start_fields:
  "trace (start p b w) = []" "fs (start p b w) = w" "self (start p b w) = Runner_init p b"
  "bin (Runner_init p b) = b" "warnings (Runner_init p b) = []"
  "current_name (Runner_init p b) = VNone" "command_results (Runner_init p b) = Map.empty"
  "params.truncate (Runner_init p b) = p"
  by (simp_all add: start_def Runner_init_def params.truncate_def)

lemma set_result_fields:
  "trace (set_result k v s) = trace s" "fs (set_result k v s) = fs s"
  "warnings (self (set_result k v s)) = warnings (self s)"
  "current_name (self (set_result k v s)) = current_name (self s)"
  "command_results (self (set_result k v s)) = (command_results (self s))(k \<mapsto> v)"
  by (simp_all add: set_result_def)

lemma do_enable_actions:
  assumes "do_enable sys s = (e, s')"
  shows "external_actions (trace s') = external_actions (trace s) @ [Register]"
  using do_enable_effect [OF assms]
  by (simp add: external_actions_append external_actions_register make_start_config_actions)

lemma unregister_actions:
  assumes "unregister_runner sys s = (None, s')"
  shows "external_actions (trace s') = external_actions (trace s) @ [Unregister]"
  using unregister_runner_effect(3) [OF assms]
  by (simp add: external_actions_append external_actions_unregister)

lemma do_reenable_actions:
  assumes "do_reenable sys s = (None, s')"
  shows "external_actions (trace s') = external_actions (trace s) @ [Unregister, Register]"
proof -
  from do_reenable_cases [OF assms] obtain s1
    where u: "unregister_runner sys s = (None, s1)" and e: "do_enable sys s1 = (None, s')"
    by auto
  show ?thesis
    by (simp add: do_enable_actions [OF e] unregister_actions [OF u])
qed

lemma external_actions_set_result:
  "external_actions (trace (set_result k v s)) = external_actions (trace s)"
  by (simp add: set_result_def)



lemmas model_defs =
  act_def observe_def transition_def report_def after_action_def set_result_def
  check_service_def verify_config_exists_def load_config_content_def get_state_def
  runner_section_def register_runner_def unregister_runner_def register_cmd_def
  register_env_def unregister_cmd_def make_start_config_def do_enable_def do_disable_def
  do_reenable_def run_command_def start_def Runner_init_def

lemmas example_defs =
  example_params_def example_bin_def service_running_def service_stopped_def
  example_sys_def failing_sys_def example_world_def example_document_def params_global_params_def
  get_default_globals_def

section \<open>The transition table\<close>









section \<open>The changed flag and the message\<close>

lemma transition_outcome:
  assumes t: "transition sys s sb = (Inr sa, s')"
  shows "(sa = None \<and> s' = s)
       \<or> (\<exists>a m acts. sa = Some a \<and> acts \<noteq> []
             \<and> external_actions (trace s') = external_actions (trace s) @ acts
             \<and> command_results (self s') = (command_results (self s))(''msg'' \<mapsto> VStr m)
             \<and> (sb, a, m) \<in>
                 {(UNREGISTERED, REGISTERED, ''Init registering Runner''),
                  (TOKEN_MISMATCH, REREGISTERED, ''Reregistering Runner due to Token mismatch''),
                  (REGISTERED, REREGISTERED, ''Force reregistering Runner due to recreate option''),
                  (REGISTERED, UNREGISTERED, ''Unregistering Runner'')})"
  using transition_done [OF t]
proof (elim disjE exE conjE)
  assume "sa = None" "s' = s"
  then show ?thesis by simp
next
  fix s2 assume h: "do_enable sys s = (None, s2)" "sb = UNREGISTERED"
    "sa = Some REGISTERED" "s' = set_result ''msg'' (VStr ''Init registering Runner'') s2"
  from do_enable_effect [OF h(1)] have "self s2 = self s" by simp
  with h show ?thesis
    by (simp add: external_actions_set_result do_enable_actions set_result_fields)
next
  fix s2 assume h: "do_reenable sys s = (None, s2)" "sb = TOKEN_MISMATCH"
    "sa = Some REREGISTERED"
    "s' = set_result ''msg'' (VStr ''Reregistering Runner due to Token mismatch'') s2"
  from do_reenable_done(1) [OF h(1)] have "self s2 = self s" .
  with h show ?thesis
    by (simp add: external_actions_set_result do_reenable_actions set_result_fields)
next
  fix s2 assume h: "do_reenable sys s = (None, s2)" "sb = REGISTERED"
    "sa = Some REREGISTERED"
    "s' = set_result ''msg'' (VStr ''Force reregistering Runner due to recreate option'') s2"
  from do_reenable_done(1) [OF h(1)] have "self s2 = self s" .
  with h show ?thesis
    by (simp add: external_actions_set_result do_reenable_actions set_result_fields)
next
  fix s2 assume h: "unregister_runner sys s = (None, s2)" "sb = REGISTERED"
    "sa = Some UNREGISTERED" "s' = set_result ''msg'' (VStr ''Unregistering Runner'') s2"
  from unregister_runner_effect(1) [OF h(1)] have "self s2 = self s" .
  with h show ?thesis
    by (simp add: external_actions_set_result unregister_actions set_result_fields)
qed

text \<open>
  C2. In an invocation that completes, \<open>changed\<close> is true exactly when the state reported
  differs from the state observed. Where nothing was registered or unregistered the
  state reported is the state observed, \<open>changed\<close> is false and there is no \<open>msg\<close>; where
  something was, \<open>changed\<close> is true and \<open>msg\<close> is the message of the transition taken,
  a different one for each of the four transitions.
\<close>

theorem changed_iff_state_differs:
  assumes a: "act sys (start p b w) = (ExitJson res, s')"
  shows "\<exists>before after.
           fst (observe sys (start p b w)) = Inr before
         \<and> res ''runner_state'' = Some (VStr (state_value after))
         \<and> res ''changed'' = Some (VBool (before \<noteq> after))
         \<and> (external_actions (trace s') = [] \<longrightarrow>
              after = before \<and> res ''changed'' = Some (VBool False) \<and> res ''msg'' = None)
         \<and> (external_actions (trace s') \<noteq> [] \<longrightarrow>
              res ''changed'' = Some (VBool True)
              \<and> (before, after, res ''msg'') \<in>
                  {(UNREGISTERED, REGISTERED, Some (VStr ''Init registering Runner'')),
                   (TOKEN_MISMATCH, REREGISTERED,
                    Some (VStr ''Reregistering Runner due to Token mismatch'')),
                   (REGISTERED, REREGISTERED,
                    Some (VStr ''Force reregistering Runner due to recreate option'')),
                   (REGISTERED, UNREGISTERED, Some (VStr ''Unregistering Runner''))})"
proof -
  from a obtain sb s1 sa s2 where o: "observe sys (start p b w) = (Inr sb, s1)"
    and t: "transition sys s1 sb = (Inr sa, s2)"
    and r: "report s2 sb sa = (ExitJson res, s')"
    by (rule act_done)
  note e = observe_effect [OF o]
  have st: "external_actions (trace s1) = []"
    using e(1) by (simp add: start_fields external_actions_status)
  have cr: "command_results (self s1) = Map.empty"
    using e(5) by (simp add: start_fields)
  note z = report_effect [OF r]
  from z(1) have res: "res = command_results (self s')" by simp
  let ?after = "case sa of Some a \<Rightarrow> a | None \<Rightarrow> sb"
  have 1: "fst (observe sys (start p b w)) = Inr sb" by (simp add: o)
  have 2: "res ''runner_state'' = Some (VStr (state_value ?after))"
    by (simp add: res z(4))
  have 3: "res ''changed'' = Some (VBool (sb \<noteq> ?after))"
    by (simp add: res z(5))
  have m: "res ''msg'' = command_results (self s2) ''msg''"
    by (simp add: res z(6))
  have tr: "external_actions (trace s') = external_actions (trace s2)"
    by (simp add: z(2))
  from transition_outcome [OF t]
  have 4: "(external_actions (trace s') = [] \<longrightarrow>
              ?after = sb \<and> res ''changed'' = Some (VBool False) \<and> res ''msg'' = None)
         \<and> (external_actions (trace s') \<noteq> [] \<longrightarrow>
              res ''changed'' = Some (VBool True)
              \<and> (sb, ?after, res ''msg'') \<in>
                  {(UNREGISTERED, REGISTERED, Some (VStr ''Init registering Runner'')),
                   (TOKEN_MISMATCH, REREGISTERED,
                    Some (VStr ''Reregistering Runner due to Token mismatch'')),
                   (REGISTERED, REREGISTERED,
                    Some (VStr ''Force reregistering Runner due to recreate option'')),
                   (REGISTERED, UNREGISTERED, Some (VStr ''Unregistering Runner''))})"
  proof (elim disjE exE conjE)
    assume "sa = None" "s2 = s1"
    then show ?thesis using st cr by (simp add: tr m 3)
  next
    fix a m' acts
    assume h: "sa = Some a" "acts \<noteq> []"
      "external_actions (trace s2) = external_actions (trace s1) @ acts"
      "command_results (self s2) = (command_results (self s1))(''msg'' \<mapsto> VStr m')"
      "(sb, a, m') \<in>
                 {(UNREGISTERED, REGISTERED, ''Init registering Runner''),
                  (TOKEN_MISMATCH, REREGISTERED, ''Reregistering Runner due to Token mismatch''),
                  (REGISTERED, REREGISTERED, ''Force reregistering Runner due to recreate option''),
                  (REGISTERED, UNREGISTERED, ''Unregistering Runner'')}"
    from h(2,3) st have ne: "external_actions (trace s') \<noteq> []" by (simp add: tr)
    from h(1,4,5) have "sb \<noteq> a
      \<and> (sb, a, res ''msg'') \<in>
                  {(UNREGISTERED, REGISTERED, Some (VStr ''Init registering Runner'')),
                   (TOKEN_MISMATCH, REREGISTERED,
                    Some (VStr ''Reregistering Runner due to Token mismatch'')),
                   (REGISTERED, REREGISTERED,
                    Some (VStr ''Force reregistering Runner due to recreate option'')),
                   (REGISTERED, UNREGISTERED, Some (VStr ''Unregistering Runner''))}"
      by (auto simp: m)
    with ne h(1) show ?thesis by (simp add: 3)
  qed
  from 1 2 3 4 show ?thesis by blast
qed

text \<open>
  Both kinds of path, on example hosts: the first registration of the runner, and a
  second invocation that finds the runner registered and does nothing.
\<close>

theorem changed_iff_state_differs_witness:
  "result_of (fst (act (example_sys service_running None)
                      (start example_params example_bin (example_world None))))
     ''changed'' = Some (VBool True)
   \<and> result_of (fst (act (example_sys service_running
                              (Some (example_document (VStr ''host1'') (VStr ''glrt-new''))))
                          (start example_params example_bin
                             (example_world (Some ''text'')))))
        ''changed'' = Some (VBool False)"
proof -
  obtain res s' where a: "act (example_sys service_running None)
                            (start example_params example_bin (example_world None))
                          = (ExitJson res, s')"
    by (simp add: model_defs example_defs Let_def)
  have x: "external_actions (trace s') \<noteq> []"
    using a by (auto simp: model_defs example_defs Let_def external_actions_def map_filter_def)
  obtain res2 s2 where b: "act (example_sys service_running
                                 (Some (example_document (VStr ''host1'') (VStr ''glrt-new''))))
                             (start example_params example_bin (example_world (Some ''text'')))
                          = (ExitJson res2, s2)"
    by (simp add: model_defs example_defs Let_def)
  have y: "external_actions (trace s2) = []"
    using b by (auto simp: model_defs example_defs Let_def external_actions_def map_filter_def)
  from changed_iff_state_differs [OF a] x have "res ''changed'' = Some (VBool True)"
    by blast
  moreover from changed_iff_state_differs [OF b] y have "res2 ''changed'' = Some (VBool False)"
    by blast
  ultimately show ?thesis by (simp add: a b)
qed

section \<open>Token mismatch and name mismatch\<close>

lemma observe_document:
  assumes "check_service sys s = (None, s1)"
      and "verify_config_exists s1 = Inr True"
      and "load_config_content sys s1 = Inr config"
      and "get_state s1 config = Inr (sb, s2)"
  shows "observe sys s = (Inr sb, s2)"
  using assms by (simp add: observe_def)

lemma get_state_token_mismatch:
  assumes "runner_section config = Inr (n, t)" and "t \<noteq> VStr (token (self s))"
  shows "get_state s config = Inr (TOKEN_MISMATCH, s)"
  using assms by (simp add: get_state_def)

lemma get_state_name_mismatch:
  assumes "runner_section config = Inr (n, t)" and "t = VStr (token (self s))"
      and "n \<noteq> VStr (name (self s))"
  shows "get_state s config =
           Inr (REGISTERED,
                s\<lparr>self := (self s)
                    \<lparr>warnings := warnings (self s)
                       @ [''Runner Name Mismatch. Perhaps re-registration required.''],
                     current_name := n\<rparr>\<rparr>)"
  using assms by (simp add: get_state_def)

lemma commands_run_single:
  "commands_run [RunCommand cmd env] = [(cmd, env)]"
  "commands_run (RunCommand cmd env # tr) = (cmd, env) # commands_run tr"
  "commands_run [] = []"
  by (simp_all add: commands_run_def map_filter_def)

lemma register_cmd_cong:
  assumes "params.truncate r' = params.truncate r" and "bin r' = bin r"
  shows "register_cmd r' = register_cmd r" and "register_env sys r' = register_env sys r"
  using assms truncate_fields [OF assms(1)]
  by (simp_all add: register_cmd_def register_env_def)

lemma Runner_init_fields:
  "state (Runner_init p b) = state p" "name (Runner_init p b) = name p"
  "token (Runner_init p b) = token p" "recreate (Runner_init p b) = recreate p"
  "global_params (Runner_init p b) = global_params p"
  by (simp_all add: Runner_init_def)

text \<open>
  C4, as amended. When the token of the configuration document differs from the desired
  token and the desired target is present, an invocation that completes reports
  REREGISTERED; the commands it ran are the status query, then \<^verbatim>\<open>unregister\<close> with the
  desired name, then \<^verbatim>\<open>register\<close>; no observed name is captured and no warning recorded.
\<close>

theorem token_mismatch_reregisters:
  assumes c: "check_service sys (start p b w) = (None, s1)"
      and v: "verify_config_exists s1 = Inr True"
      and l: "load_config_content sys s1 = Inr config"
      and rs: "runner_section config = Inr (n, t)"
      and tok: "t \<noteq> VStr (token p)"
      and pr: "state p = ''present''"
      and a: "act sys (start p b w) = (ExitJson res, s')"
  shows "res ''runner_state'' = Some (VStr (state_value REREGISTERED))
       \<and> commands_run (trace s') =
           [([VStr b, VStr ''status''], None),
            ([VStr b, VStr ''unregister'', VStr ''--name'', VStr (name p)], None),
            (register_cmd (Runner_init p b), register_env sys (Runner_init p b))]
       \<and> res ''warnings'' = None \<and> warnings (self s') = [] \<and> current_name (self s') = VNone"
proof -
  note ce = check_service_effect [OF c]
  from ce have self1: "self s1 = Runner_init p b" by (simp add: start_fields)
  from ce have tr1: "trace s1 = [RunCommand [VStr b, VStr ''status''] None]"
    by (simp add: start_fields)
  from tok have "t \<noteq> VStr (token (self s1))" by (simp add: self1 Runner_init_fields)
  from get_state_token_mismatch [OF rs this]
  have g: "get_state s1 config = Inr (TOKEN_MISMATCH, s1)" .
  have o: "observe sys (start p b w) = (Inr TOKEN_MISMATCH, s1)"
    by (rule observe_document [OF c v l g])
  from a o obtain sa s2 where t: "transition sys s1 TOKEN_MISMATCH = (Inr sa, s2)"
    and r: "report s2 TOKEN_MISMATCH sa = (ExitJson res, s')"
    by (auto elim!: act_done)
  from transition_done [OF t] pr obtain s3 where
    d: "do_reenable sys s1 = (None, s3)" and sa: "sa = Some REREGISTERED"
    and s2: "s2 = set_result ''msg'' (VStr ''Reregistering Runner due to Token mismatch'') s3"
    by (auto simp: self1 Runner_init_fields)
  from do_reenable_done [OF d] obtain s4 where
    self3: "self s3 = self s1"
    and tr4: "trace s4 = trace s1 @ [RunCommand (unregister_cmd (self s1)) None]"
    and tr3: "trace s3 = trace (make_start_config sys s4)
                @ [RunCommand (register_cmd (self s1)) (register_env sys (self s1))]"
    by auto
  have u: "unregister_cmd (Runner_init p b)
             = [VStr b, VStr ''unregister'', VStr ''--name'', VStr (name p)]"
    by (simp add: unregister_cmd_def start_fields Runner_init_fields)
  note z = report_effect [OF r]
  from z(1) have res: "res = command_results (self s')" by simp
  have 1: "res ''runner_state'' = Some (VStr (state_value REREGISTERED))"
    using z(4) by (simp add: res sa)
  have 2: "commands_run (trace s') =
           [([VStr b, VStr ''status''], None),
            ([VStr b, VStr ''unregister'', VStr ''--name'', VStr (name p)], None),
            (register_cmd (Runner_init p b), register_env sys (Runner_init p b))]"
    by (simp add: z(2) s2 set_result_fields tr3 commands_run_append commands_run_single
                  make_start_config_actions tr4 tr1 u self1)
  have w: "warnings (self s2) = []" "current_name (self s2) = VNone"
    "command_results (self s2) ''warnings'' = None"
    by (simp_all add: s2 set_result_fields self3 self1 start_fields)
  have 3: "res ''warnings'' = None \<and> warnings (self s') = [] \<and> current_name (self s') = VNone"
    using z(7) z(8) z(9) w by (simp add: res)
  from 1 2 3 show ?thesis by simp
qed

text \<open>
  The claim as it was stated fails for the desired target absent: the token of the
  document differs from the desired token, and the invocation reports the state
  observed, TOKEN_MISMATCH, without unregistering or registering anything.
\<close>

theorem token_mismatch_absent_counterexample:
  "result_of
     (fst (act (example_sys service_running
                  (Some (example_document (VStr ''host1'') (VStr ''glrt-old''))))
               (start (example_params\<lparr>state := ''absent''\<rparr>) example_bin
                  (example_world (Some ''text'')))))
     ''runner_state'' = Some (VStr ''Token Mismatch'')
   \<and> external_actions
       (trace (snd (act (example_sys service_running
                           (Some (example_document (VStr ''host1'') (VStr ''glrt-old''))))
                        (start (example_params\<lparr>state := ''absent''\<rparr>) example_bin
                           (example_world (Some ''text''))))))
     = []"
  by (simp add: model_defs example_defs Let_def external_actions_def map_filter_def)

text \<open>With the desired target present the same document leads to a reregistration.\<close>

theorem token_mismatch_reregisters_witness:
  "result_of
     (fst (act (example_sys service_running
                  (Some (example_document (VStr ''host1'') (VStr ''glrt-old''))))
               (start example_params example_bin (example_world (Some ''text'')))))
     ''runner_state'' = Some (VStr ''Reregistered'')
   \<and> commands_run
       (trace (snd (act (example_sys service_running
                           (Some (example_document (VStr ''host1'') (VStr ''glrt-old''))))
                        (start example_params example_bin (example_world (Some ''text''))))))
     = [([VStr example_bin, VStr ''status''], None),
        ([VStr example_bin, VStr ''unregister'', VStr ''--name'', VStr ''host1''], None),
        (register_cmd (Runner_init example_params example_bin), None)]"
proof -
  let ?sys = "example_sys service_running
                (Some (example_document (VStr ''host1'') (VStr ''glrt-old'')))"
  let ?s0 = "start example_params example_bin (example_world (Some ''text''))"
  let ?s1 = "snd (check_service ?sys ?s0)"
  have c: "check_service ?sys ?s0 = (None, ?s1)"
    by (simp add: model_defs example_defs)
  have v: "verify_config_exists ?s1 = Inr True"
    by (simp add: model_defs example_defs)
  have l: "load_config_content ?sys ?s1
             = Inr (example_document (VStr ''host1'') (VStr ''glrt-old''))"
    by (simp add: model_defs example_defs)
  have rs: "runner_section (example_document (VStr ''host1'') (VStr ''glrt-old''))
              = Inr (VStr ''host1'', VStr ''glrt-old'')"
    by (simp add: runner_section_def example_document_def)
  have tok: "VStr ''glrt-old'' \<noteq> VStr (token example_params)"
    by (simp add: example_params_def)
  have pr: "state example_params = ''present''"
    by (simp add: example_params_def)
  obtain res s' where a: "act ?sys ?s0 = (ExitJson res, s')"
    by (simp add: model_defs example_defs Let_def)
  have e: "register_env ?sys (Runner_init example_params example_bin) = None"
    by (simp add: register_env_def Runner_init_def example_params_def)
  have n: "name example_params = ''host1''"
    by (simp add: example_params_def)
  from token_mismatch_reregisters [OF c v l rs tok pr a]
  have "res ''runner_state'' = Some (VStr ''Reregistered'')
      \<and> commands_run (trace s')
          = [([VStr example_bin, VStr ''status''], None),
             ([VStr example_bin, VStr ''unregister'', VStr ''--name'', VStr ''host1''], None),
             (register_cmd (Runner_init example_params example_bin), None)]"
    by (simp add: e n)
  then show ?thesis by (simp add: a)
qed

text \<open>
  C5, as amended. When the name of the configuration document differs from the desired
  name while the token is the same, the desired target is present and recreate is
  off, the invocation completes, reports REGISTERED with \<open>changed\<close> false and the
  name-mismatch warning, and runs no command after the status query.
\<close>

theorem name_mismatch_warns_only:
  assumes c: "check_service sys (start p b w) = (None, s1)"
      and v: "verify_config_exists s1 = Inr True"
      and l: "load_config_content sys s1 = Inr config"
      and rs: "runner_section config = Inr (n, t)"
      and tok: "t = VStr (token p)"
      and nm: "n \<noteq> VStr (name p)"
      and pr: "state p = ''present''"
      and rc: "\<not> recreate p"
  shows "\<exists>res s'. act sys (start p b w) = (ExitJson res, s')
           \<and> res ''runner_state'' = Some (VStr (state_value REGISTERED))
           \<and> res ''warnings''
               = Some (VList [VStr ''Runner Name Mismatch. Perhaps re-registration required.''])
           \<and> res ''changed'' = Some (VBool False)
           \<and> res ''msg'' = None
           \<and> trace s' = [RunCommand [VStr b, VStr ''status''] None]
           \<and> external_actions (trace s') = []
           \<and> fs s' = fs s1"
proof -
  note ce = check_service_effect [OF c]
  from ce have self1: "self s1 = Runner_init p b" by (simp add: start_fields)
  from ce have tr1: "trace s1 = [RunCommand [VStr b, VStr ''status''] None]"
    by (simp add: start_fields)
  define s2 where "s2 = s1\<lparr>self := (self s1)
                    \<lparr>warnings := warnings (self s1)
                       @ [''Runner Name Mismatch. Perhaps re-registration required.''],
                     current_name := n\<rparr>\<rparr>"
  have g: "get_state s1 config = Inr (REGISTERED, s2)"
    unfolding s2_def using tok nm
    by (intro get_state_name_mismatch [OF rs]) (simp_all add: self1 Runner_init_fields)
  have o: "observe sys (start p b w) = (Inr REGISTERED, s2)"
    by (rule observe_document [OF c v l g])
  have t: "transition sys s2 REGISTERED = (Inr None, s2)"
    using pr rc by (simp add: transition_def s2_def self1 Runner_init_fields)
  obtain e s' where r: "report s2 REGISTERED None = (e, s')"
    by (cases "report s2 REGISTERED None") auto
  note z = report_effect [OF r]
  have a: "act sys (start p b w) = (ExitJson (command_results (self s')), s')"
    using z(1) by (simp add: act_def o t r)
  have f2: "warnings (self s2) = [''Runner Name Mismatch. Perhaps re-registration required.'']"
    "command_results (self s2) = Map.empty" "trace s2 = trace s1" "fs s2 = fs s1"
    by (simp_all add: s2_def self1 start_fields)
  have "command_results (self s') ''runner_state'' = Some (VStr (state_value REGISTERED))"
    using z(4) by simp
  moreover have "command_results (self s') ''warnings''
      = Some (VList [VStr ''Runner Name Mismatch. Perhaps re-registration required.''])"
    using z(7) by (simp add: f2)
  moreover have "command_results (self s') ''changed'' = Some (VBool False)"
    using z(5) by simp
  moreover have "command_results (self s') ''msg'' = None"
    using z(6) by (simp add: f2)
  moreover have "trace s' = [RunCommand [VStr b, VStr ''status''] None]"
    using z(2) by (simp add: f2 tr1)
  moreover have "fs s' = fs s1"
    using z(3) by (simp add: f2)
  ultimately show ?thesis
    using a by (simp add: external_actions_status)
qed

text \<open>
  The claim as it was stated fails for the desired target absent: the names differ, the
  tokens agree, and the invocation unregisters the runner and reports a change.
\<close>

theorem name_mismatch_absent_counterexample:
  "result_of
     (fst (act (example_sys service_running
                  (Some (example_document (VStr ''host0'') (VStr ''glrt-new''))))
               (start (example_params\<lparr>state := ''absent''\<rparr>) example_bin
                  (example_world (Some ''text'')))))
     ''runner_state'' = Some (VStr ''Unregistered'')
   \<and> result_of
     (fst (act (example_sys service_running
                  (Some (example_document (VStr ''host0'') (VStr ''glrt-new''))))
               (start (example_params\<lparr>state := ''absent''\<rparr>) example_bin
                  (example_world (Some ''text'')))))
     ''changed'' = Some (VBool True)
   \<and> external_actions
       (trace (snd (act (example_sys service_running
                           (Some (example_document (VStr ''host0'') (VStr ''glrt-new''))))
                        (start (example_params\<lparr>state := ''absent''\<rparr>) example_bin
                           (example_world (Some ''text''))))))
     = [Unregister]"
  by (simp add: model_defs example_defs Let_def external_actions_def map_filter_def)

text \<open>With the desired target present and recreate off, the same document only warns.\<close>

theorem name_mismatch_warns_only_witness:
  "result_of
     (fst (act (example_sys service_running
                  (Some (example_document (VStr ''host0'') (VStr ''glrt-new''))))
               (start example_params example_bin (example_world (Some ''text'')))))
     ''changed'' = Some (VBool False)
   \<and> result_of
     (fst (act (example_sys service_running
                  (Some (example_document (VStr ''host0'') (VStr ''glrt-new''))))
               (start example_params example_bin (example_world (Some ''text'')))))
     ''warnings''
     = Some (VList [VStr ''Runner Name Mismatch. Perhaps re-registration required.''])"
proof -
  let ?sys = "example_sys service_running
                (Some (example_document (VStr ''host0'') (VStr ''glrt-new'')))"
  let ?s0 = "start example_params example_bin (example_world (Some ''text''))"
  let ?s1 = "snd (check_service ?sys ?s0)"
  have c: "check_service ?sys ?s0 = (None, ?s1)"
    by (simp add: model_defs example_defs)
  have v: "verify_config_exists ?s1 = Inr True"
    by (simp add: model_defs example_defs)
  have l: "load_config_content ?sys ?s1
             = Inr (example_document (VStr ''host0'') (VStr ''glrt-new''))"
    by (simp add: model_defs example_defs)
  have rs: "runner_section (example_document (VStr ''host0'') (VStr ''glrt-new''))
              = Inr (VStr ''host0'', VStr ''glrt-new'')"
    by (simp add: runner_section_def example_document_def)
  have tok: "VStr ''glrt-new'' = VStr (token example_params)"
    by (simp add: example_params_def)
  have nm: "VStr ''host0'' \<noteq> VStr (name example_params)"
    by (simp add: example_params_def)
  have pr: "state example_params = ''present''"
    by (simp add: example_params_def)
  have rc: "\<not> recreate example_params"
    by (simp add: example_params_def)
  from name_mismatch_warns_only [OF c v l rs tok nm pr rc]
  show ?thesis by auto
qed

section \<open>The checks before the observation\<close>

text \<open>
  C6, as amended. The status query is the first thing an invocation does. When it exits
  non-zero the invocation fails: with the message alone when standard error says that
  the service has stopped, with standard output and standard error otherwise. When it
  exits zero without saying that the service is running, the invocation fails with both
  outputs. When the identity marker is missing, the invocation fails. In each failure
  the status query is the only command run and the files are as it left them. A missing
  configuration document, the marker being there, is no failure: the state observed is
  UNREGISTERED.
\<close>

theorem preflight_outcomes:
  assumes "ext_run sys [VStr b, VStr ''status''] None w = ((rc, out, err), w1)"
  shows "(rc \<noteq> 0 \<and> re_search ''Service has stopped'' err \<longrightarrow>
            act sys (start p b w)
              = (FailJson ''Service(systemd) not running.'' None None,
                 \<lparr>self = Runner_init p b, fs = w1,
                  trace = [RunCommand [VStr b, VStr ''status''] None]\<rparr>))
       \<and> (rc \<noteq> 0 \<and> \<not> re_search ''Service has stopped'' err \<longrightarrow>
            act sys (start p b w)
              = (FailJson ''gitlab-runner can't get status'' (Some out) (Some err),
                 \<lparr>self = Runner_init p b, fs = w1,
                  trace = [RunCommand [VStr b, VStr ''status''] None]\<rparr>))
       \<and> (rc = 0 \<and> \<not> re_search ''Service is running'' out \<longrightarrow>
            act sys (start p b w)
              = (FailJson ''Gitlab-Runner service not running! Ensure service is up.''
                   (Some out) (Some err),
                 \<lparr>self = Runner_init p b, fs = w1,
                  trace = [RunCommand [VStr b, VStr ''status''] None]\<rparr>))
       \<and> (rc = 0 \<and> re_search ''Service is running'' out \<and> \<not> runner_id w1 \<longrightarrow>
            act sys (start p b w)
              = (FailJson ''Runner didn't initialize it's runner_id.'' None None,
                 \<lparr>self = Runner_init p b, fs = w1,
                  trace = [RunCommand [VStr b, VStr ''status''] None]\<rparr>))
       \<and> (rc = 0 \<and> re_search ''Service is running'' out \<and> runner_id w1
            \<and> runner_config w1 = None \<longrightarrow>
            observe sys (start p b w)
              = (Inr UNREGISTERED,
                 \<lparr>self = Runner_init p b, fs = w1,
                  trace = [RunCommand [VStr b, VStr ''status''] None]\<rparr>))"
proof -
  have c: "run_command sys [VStr (bin (self (start p b w))), VStr ''status''] None (start p b w)
             = Inr ((rc, out, err),
                    \<lparr>self = Runner_init p b, fs = w1,
                     trace = [RunCommand [VStr b, VStr ''status''] None]\<rparr>)"
    using assms by (simp add: run_status start_def Runner_init_def)
  show ?thesis
    by (simp add: act_def observe_def check_service_def c verify_config_exists_def)
qed

text \<open>
  The claim as it was stated fails where the service has stopped: the failure carries
  the message and neither standard output nor standard error.
\<close>

theorem service_stopped_counterexample:
  "fst (act (example_sys service_stopped None)
            (start example_params example_bin (example_world None)))
     = FailJson ''Service(systemd) not running.'' None None"
  by (simp add: model_defs example_defs)

text \<open>
  The outcomes on example hosts: a stopped service, a status query that fails otherwise,
  a missing marker, and a missing configuration document.
\<close>

theorem preflight_outcomes_witness:
  "fst (act (example_sys service_stopped None)
            (start example_params example_bin (example_world None)))
     = FailJson ''Service(systemd) not running.'' None None
   \<and> fst (act (example_sys (2, ''out'', ''err'') None)
              (start example_params example_bin (example_world None)))
     = FailJson ''gitlab-runner can't get status'' (Some ''out'') (Some ''err'')
   \<and> fst (act (example_sys service_running None)
              (start example_params example_bin ((example_world None)\<lparr>runner_id := False\<rparr>)))
     = FailJson ''Runner didn't initialize it's runner_id.'' None None
   \<and> fst (observe (example_sys service_running None)
                  (start example_params example_bin (example_world None)))
     = Inr UNREGISTERED"
proof -
  have 1: "ext_run (example_sys service_stopped None) [VStr example_bin, VStr ''status''] None
             (example_world None)
           = ((1, [], ''gitlab-runner: Service has stopped''), example_world None)"
    by (simp add: example_sys_def service_stopped_def)
  have 2: "ext_run (example_sys (2, ''out'', ''err'') None) [VStr example_bin, VStr ''status''] None
             (example_world None)
           = ((2, ''out'', ''err''), example_world None)"
    by (simp add: example_sys_def)
  have 3: "ext_run (example_sys service_running None) [VStr example_bin, VStr ''status''] None
             ((example_world None)\<lparr>runner_id := False\<rparr>)
           = ((0, ''gitlab-runner: Service is running'', []),
              (example_world None)\<lparr>runner_id := False\<rparr>)"
    by (simp add: example_sys_def service_running_def)
  have 4: "ext_run (example_sys service_running None) [VStr example_bin, VStr ''status''] None
             (example_world None)
           = ((0, ''gitlab-runner: Service is running'', []), example_world None)"
    by (simp add: example_sys_def service_running_def)
  from preflight_outcomes [OF 1, of example_params]
       preflight_outcomes [OF 2, of example_params]
       preflight_outcomes [OF 3, of example_params]
       preflight_outcomes [OF 4, of example_params]
  show ?thesis
    by (simp add: example_world_def)
qed

section \<open>A malformed configuration document\<close>

text \<open>
  C7. When the checks pass and the configuration document is one that \<^verbatim>\<open>toml.load\<close>
  rejects, the invocation ends with the decoding error uncaught: nothing is observed, in
  particular not UNREGISTERED, and no command runs after the status query.
\<close>

theorem malformed_document_is_fatal:
  assumes c: "check_service sys (start p b w) = (None, s1)"
      and v: "verify_config_exists s1 = Inr True"
      and t: "runner_config (fs s1) = Some text"
      and m: "ext_toml_load sys text = None"
  shows "act sys (start p b w) = (Raised TomlDecodeError, s1)
       \<and> fst (observe sys (start p b w)) = Inl (Raised TomlDecodeError)
       \<and> trace s1 = [RunCommand [VStr b, VStr ''status''] None]"
proof -
  have l: "load_config_content sys s1 = Inl TomlDecodeError"
    using t m by (simp add: load_config_content_def)
  have o: "observe sys (start p b w) = (Inl (Raised TomlDecodeError), s1)"
    using c v l by (simp add: observe_def)
  from check_service_effect [OF c]
  have "trace s1 = [RunCommand [VStr b, VStr ''status''] None]"
    by (simp add: start_fields)
  with o show ?thesis by (simp add: act_def)
qed

text \<open>A host whose document does not decode.\<close>

theorem malformed_document_is_fatal_witness:
  "fst (act (example_sys service_running None)
            (start example_params example_bin (example_world (Some ''runners = [''))))
     = Raised TomlDecodeError
   \<and> trace (snd (act (example_sys service_running None)
                     (start example_params example_bin (example_world (Some ''runners = [''))))) 
     = [RunCommand [VStr example_bin, VStr ''status''] None]"
proof -
  let ?sys = "example_sys service_running None"
  let ?s0 = "start example_params example_bin (example_world (Some ''runners = [''))"
  let ?s1 = "snd (check_service ?sys ?s0)"
  have c: "check_service ?sys ?s0 = (None, ?s1)"
    by (simp add: model_defs example_defs)
  have v: "verify_config_exists ?s1 = Inr True"
    by (simp add: model_defs example_defs)
  have t: "runner_config (fs ?s1) = Some ''runners = [''"
    by (simp add: model_defs example_defs)
  have m: "ext_toml_load ?sys ''runners = ['' = None"
    by (simp add: example_sys_def)
  from malformed_document_is_fatal [OF c v t m]
  show ?thesis by simp
qed

section \<open>Seeding the global settings\<close>

lemma make_start_config_trace:
  "trace (make_start_config sys s)
     = trace s @ (case global_params (self s) of
                    Some gp \<Rightarrow> if gp \<noteq> [] then [Mkstemp, TomlDump gp, AtomicMove] else []
                  | None \<Rightarrow> [])"
  by (simp add: make_start_config_def split: option.splits)

lemma do_enable_trace:
  assumes "do_enable sys s = (e, s')" and "global_params (self s) = Some gp" and "gp \<noteq> []"
  shows "trace s' = trace s @ [Mkstemp, TomlDump gp, AtomicMove,
                               RunCommand (register_cmd (self s)) (register_env sys (self s))]"
  using do_enable_effect [OF assms(1)] assms(2,3)
  by (simp add: make_start_config_trace)

lemma do_reenable_trace:
  assumes d: "do_reenable sys s = (e, s')" and g: "global_params (self s) = Some gp"
      and n: "gp \<noteq> []"
  shows "trace s' = trace s
       \<or> trace s' = trace s @ [RunCommand (unregister_cmd (self s)) None]
       \<or> trace s' = trace s @ [RunCommand (unregister_cmd (self s)) None,
                                 Mkstemp, TomlDump gp, AtomicMove,
                                 RunCommand (register_cmd (self s)) (register_env sys (self s))]"
  using do_reenable_cases [OF d]
proof (elim disjE exE conjE)
  fix x assume "unregister_runner sys s = (Some x, s')"
  from unregister_runner_effect(2) [OF this] show ?thesis by auto
next
  fix s1 assume u: "unregister_runner sys s = (None, s1)" and e: "do_enable sys s1 = (e, s')"
  note ue = unregister_runner_effect(1,3) [OF u]
  from g ue have "global_params (self s1) = Some gp" by simp
  from do_enable_trace [OF e this n] ue show ?thesis by simp
qed

lemma after_action_trace:
  "after_action (e, s2) a m = (r, s') \<Longrightarrow> trace s' = trace s2"
  by (auto simp: after_action_def set_result_def split: option.splits)

lemma transition_trace:
  assumes t: "transition sys s sb = (r, s')" and g: "global_params (self s) = Some gp"
      and n: "gp \<noteq> []"
  shows "trace s' = trace s
       \<or> trace s' = trace s @ [RunCommand (unregister_cmd (self s)) None]
       \<or> trace s' = trace s @ [Mkstemp, TomlDump gp, AtomicMove,
                                 RunCommand (register_cmd (self s)) (register_env sys (self s))]
       \<or> trace s' = trace s @ [RunCommand (unregister_cmd (self s)) None,
                                 Mkstemp, TomlDump gp, AtomicMove,
                                 RunCommand (register_cmd (self s)) (register_env sys (self s))]"
proof -
  {
    fix a m assume h: "after_action (do_enable sys s) a m = (r, s')"
    obtain e s2 where d: "do_enable sys s = (e, s2)" by (cases "do_enable sys s") auto
    from h d have "trace s' = trace s2" by (simp add: after_action_trace)
    with do_enable_trace [OF d g n] have ?thesis by simp
  }
  note en = this
  {
    fix a m assume h: "after_action (do_reenable sys s) a m = (r, s')"
    obtain e s2 where d: "do_reenable sys s = (e, s2)" by (cases "do_reenable sys s") auto
    from h d have "trace s' = trace s2" by (simp add: after_action_trace)
    with do_reenable_trace [OF d g n] have ?thesis by auto
  }
  note re = this
  {
    fix a m assume h: "after_action (do_disable sys s) a m = (r, s')"
    obtain e s2 where d: "unregister_runner sys s = (e, s2)"
      by (cases "unregister_runner sys s") auto
    from h d have "trace s' = trace s2" by (simp add: after_action_trace do_disable_def)
    with unregister_runner_effect(2) [OF d] have ?thesis by auto
  }
  note un = this
  from t show ?thesis
    by (auto simp: transition_def split: if_splits dest: en re un)
qed

lemma observe_trace:
  assumes "observe sys s = (r, s1)"
  shows "trace s1 = trace s @ [RunCommand [VStr (bin (self s)), VStr ''status''] None]"
    and "params.truncate (self s1) = params.truncate (self s)"
    and "bin (self s1) = bin (self s)"
proof -
  obtain e s0 where c: "check_service sys s = (e, s0)" by (cases "check_service sys s") auto
  note ce = check_service_effect [OF c]
  from assms c have "s1 = s0 \<or> (\<exists>config sb. get_state s0 config = Inr (sb, s1))"
    by (auto simp: observe_def split: option.splits sum.splits if_splits prod.splits)
  then have "trace s1 = trace s0 \<and> params.truncate (self s1) = params.truncate (self s0)
             \<and> bin (self s1) = bin (self s0)"
    by (auto dest: get_state_effect)
  with ce show "trace s1 = trace s @ [RunCommand [VStr (bin (self s)), VStr ''status''] None]"
    and "params.truncate (self s1) = params.truncate (self s)"
    and "bin (self s1) = bin (self s)"
    by simp_all
qed

text \<open>
  C8, as amended. With a non-empty mapping of global settings, the effects of every
  invocation, however it ends, are one of four sequences: the status query alone; the
  status query and an unregistration; the status query, the seeding (temporary file,
  dump of the mapping, atomic move) and the registration; or the status query, an
  unregistration, the seeding and the registration. So the seeding comes immediately
  before every registration, never before an unregistration, and not at all where the
  runner is only unregistered.
\<close>

theorem seeding_precedes_registration:
  assumes g: "global_params p = Some gp" and n: "gp \<noteq> []"
  shows "\<exists>target.
           trace (snd (act sys (start p b w))) \<in>
             {[RunCommand [VStr b, VStr ''status''] None],
              [RunCommand [VStr b, VStr ''status''] None,
               RunCommand [VStr b, VStr ''unregister'', VStr ''--name'', target] None],
              [RunCommand [VStr b, VStr ''status''] None,
               Mkstemp, TomlDump gp, AtomicMove,
               RunCommand (register_cmd (Runner_init p b)) (register_env sys (Runner_init p b))],
              [RunCommand [VStr b, VStr ''status''] None,
               RunCommand [VStr b, VStr ''unregister'', VStr ''--name'', target] None,
               Mkstemp, TomlDump gp, AtomicMove,
               RunCommand (register_cmd (Runner_init p b)) (register_env sys (Runner_init p b))]}"
proof -
  obtain r s1 where o: "observe sys (start p b w) = (r, s1)"
    by (cases "observe sys (start p b w)") auto
  note ot = observe_trace [OF o]
  from ot(1) have tr1: "trace s1 = [RunCommand [VStr b, VStr ''status''] None]"
    by (simp add: start_fields)
  from ot(2) have tc: "params.truncate (self s1) = params.truncate (Runner_init p b)"
    by (simp add: start_fields)
  from ot(3) have b1: "bin (self s1) = bin (Runner_init p b)"
    by (simp add: start_fields)
  have g1: "global_params (self s1) = Some gp"
    using truncate_fields(5) [OF tc] g by (simp add: Runner_init_fields)
  have rc: "register_cmd (self s1) = register_cmd (Runner_init p b)"
    "register_env sys (self s1) = register_env sys (Runner_init p b)"
    by (rule register_cmd_cong [OF tc b1])+
  have u: "unregister_cmd (self s1)
             = [VStr b, VStr ''unregister'', VStr ''--name'',
                if truthy (current_name (self s1)) then current_name (self s1)
                else VStr (name (self s1))]"
    using b1 by (simp add: unregister_cmd_def start_fields)
  show ?thesis
  proof (cases r)
    case (Inl e)
    with o have "trace (snd (act sys (start p b w))) = trace s1"
      by (simp add: act_def)
    then show ?thesis by (simp add: tr1)
  next
    case (Inr sb)
    obtain q s2 where t: "transition sys s1 sb = (q, s2)"
      by (cases "transition sys s1 sb") auto
    have "trace (snd (act sys (start p b w))) = trace s2"
    proof (cases q)
      case (Inl e)
      with o Inr t show ?thesis by (simp add: act_def)
    next
      case (Inr sa)
      obtain x s3 where rp: "report s2 sb sa = (x, s3)" by (cases "report s2 sb sa") auto
      from report_effect(2) [OF rp] o \<open>r = Inr sb\<close> t Inr rp show ?thesis
        by (simp add: act_def)
    qed
    with transition_trace [OF t g1 n] show ?thesis
      by (auto simp: tr1 rc u)
  qed
qed

text \<open>
  The claim as it was stated fails for a caller that gives an empty mapping: the runner is
  registered and nothing is seeded before the registration.
\<close>

theorem empty_global_params_counterexample:
  "trace (snd (act (example_sys service_running None)
                   (start (example_params\<lparr>global_params := Some []\<rparr>) example_bin
                      (example_world None))))
     = [RunCommand [VStr ''/usr/bin/gitlab-runner'', VStr ''status''] None,
        RunCommand [VStr ''/usr/bin/gitlab-runner'', VStr ''register'',
                    VStr ''--non-interactive'', VStr ''--url'',
                    VStr ''https://gitlab.example.com'', VStr ''--token'', VStr ''glrt-new'',
                    VStr ''--name'', VStr ''host1'', VStr ''--executor'', VStr ''docker'']
          None]"
  by (simp add: model_defs example_defs Let_def)

text \<open>With the default mapping the first registration is seeded.\<close>

theorem seeding_precedes_registration_witness:
  "trace (snd (act (example_sys service_running None)
                   (start example_params example_bin (example_world None))))
     = [RunCommand [VStr example_bin, VStr ''status''] None,
        Mkstemp, TomlDump get_default_globals, AtomicMove,
        RunCommand (register_cmd (Runner_init example_params example_bin))
          (register_env (example_sys service_running None)
             (Runner_init example_params example_bin))]"
proof -
  have g: "global_params example_params = Some get_default_globals"
    by (simp add: example_params_def params_global_params_def)
  have n: "get_default_globals \<noteq> []"
    by (simp add: get_default_globals_def)
  have l: "length (trace (snd (act (example_sys service_running None)
                   (start example_params example_bin (example_world None))))) = 5"
    by (simp add: model_defs example_defs Let_def)
  from seeding_precedes_registration [OF g n, of "example_sys service_running None"
         example_bin "example_world None"] l
  show ?thesis by auto
qed

text \<open>
  C10. A caller that gives an empty mapping keeps it (the defaults replace an omitted
  option only). Then \<^verbatim>\<open>make_start_config\<close> does nothing at all: no temporary file, no
  dump, no move, the configuration document as it was; and enabling the runner is
  the registration alone, run on the files as they are.
\<close>

theorem empty_global_params_seed_nothing:
  assumes "global_params (self s) = Some []"
  shows "params_global_params (Some []) = Some []
       \<and> make_start_config sys s = s
       \<and> do_enable sys s = register_runner sys s"
  using assms by (simp add: params_global_params_def make_start_config_def do_enable_def)

theorem empty_global_params_seed_nothing_witness:
  "make_start_config (example_sys service_running None)
     (start (example_params\<lparr>global_params := params_global_params (Some [])\<rparr>) example_bin
        (example_world (Some ''text'')))
   = start (example_params\<lparr>global_params := params_global_params (Some [])\<rparr>) example_bin
       (example_world (Some ''text''))"
proof -
  have "global_params
          (self (start (example_params\<lparr>global_params := params_global_params (Some [])\<rparr>)
                   example_bin (example_world (Some ''text''))))
        = Some []"
    by (simp add: start_def Runner_init_def params_global_params_def)
  from empty_global_params_seed_nothing [OF this, of "example_sys service_running None"]
  show ?thesis by blast
qed

section \<open>The state observed and the name unregistered\<close>

text \<open>
  What \<^verbatim>\<open>get_state\<close> returns, case by case: UNREGISTERED when there is no \<^verbatim>\<open>runners\<close>
  key, when the list of runners is empty, or when its first entry lacks the name or the
  token; otherwise TOKEN_MISMATCH when the token differs, and REGISTERED when it is the
  same, with one warning more and the name captured when the name differs.
\<close>

lemma get_state_no_runners:
  "map_of config ''runners'' = None \<Longrightarrow> get_state s config = Inr (UNREGISTERED, s)"
  by (simp add: get_state_def runner_section_def)

lemma get_state_no_entry:
  "map_of config ''runners'' = Some (VList []) \<Longrightarrow> get_state s config = Inr (UNREGISTERED, s)"
  by (simp add: get_state_def runner_section_def)

lemma get_state_no_field:
  assumes "map_of config ''runners'' = Some (VList (VDict entry # rest))"
      and "map_of entry ''name'' = None \<or> map_of entry ''token'' = None"
  shows "get_state s config = Inr (UNREGISTERED, s)"
  using assms by (auto simp: get_state_def runner_section_def split: option.splits)

lemma get_state_entry:
  assumes "map_of config ''runners'' = Some (VList (VDict entry # rest))"
      and "map_of entry ''name'' = Some n" and "map_of entry ''token'' = Some t"
  shows "get_state s config =
          (if t \<noteq> VStr (token (self s)) then Inr (TOKEN_MISMATCH, s)
           else if n \<noteq> VStr (name (self s)) then
             Inr (REGISTERED,
                  s\<lparr>self := (self s)
                      \<lparr>warnings := warnings (self s)
                         @ [''Runner Name Mismatch. Perhaps re-registration required.''],
                       current_name := n\<rparr>\<rparr>)
           else Inr (REGISTERED, s))"
  using assms by (simp add: get_state_def runner_section_def)

text \<open>
  A captured name that is not empty is the one in the \<^verbatim>\<open>unregister\<close> command. The
  command runs when that name is a string; a name of another type on record, such as
  the number 5, ends the invocation with the \<^verbatim>\<open>TypeError\<close> of \<^verbatim>\<open>run_command\<close>, the
  status query being the only command run.
\<close>

lemma unregister_cmd_captured:
  "truthy (current_name r) \<Longrightarrow>
     unregister_cmd r = [VStr (bin r), VStr ''unregister'', VStr ''--name'', current_name r]"
  by (simp add: unregister_cmd_def)

lemma numeric_observed_name_raises:
  "fst (act (example_sys service_running
               (Some (example_document (VInt 5) (VStr ''glrt-new''))))
            (start (example_params\<lparr>state := ''absent''\<rparr>) example_bin
               (example_world (Some ''text''))))
     = Raised TypeError
   \<and> trace (snd (act (example_sys service_running
                       (Some (example_document (VInt 5) (VStr ''glrt-new''))))
                    (start (example_params\<lparr>state := ''absent''\<rparr>) example_bin
                       (example_world (Some ''text'')))))
     = [RunCommand [VStr ''/usr/bin/gitlab-runner'', VStr ''status''] None]"
  by (simp add: model_defs example_defs Let_def)

text \<open>
  C3. The last part of the claim, that an unregistration after a name mismatch targets
  the name captured and not the desired one, is not what the code does when the name on
  record is the empty string: \<^verbatim>\<open>if self.current_name\<close> takes the empty string for no
  capture. Here the document records the name \<open>''''\<close> with the desired token, the
  caller wants the runner \<open>host1\<close> absent: the state observed is REGISTERED, the warning is
  recorded, the empty name is captured, and the command unregisters \<open>host1\<close>.
\<close>

theorem empty_observed_name_unregisters_desired:
  "fst (observe (example_sys service_running
                   (Some (example_document (VStr []) (VStr ''glrt-new''))))
                (start (example_params\<lparr>state := ''absent''\<rparr>) example_bin
                   (example_world (Some ''text''))))
     = Inr REGISTERED
   \<and> current_name
       (self (snd (observe (example_sys service_running
                              (Some (example_document (VStr []) (VStr ''glrt-new''))))
                           (start (example_params\<lparr>state := ''absent''\<rparr>) example_bin
                              (example_world (Some ''text''))))))
     = VStr []
   \<and> warnings
       (self (snd (observe (example_sys service_running
                              (Some (example_document (VStr []) (VStr ''glrt-new''))))
                           (start (example_params\<lparr>state := ''absent''\<rparr>) example_bin
                              (example_world (Some ''text''))))))
     = [''Runner Name Mismatch. Perhaps re-registration required.'']
   \<and> commands_run
       (trace (snd (act (example_sys service_running
                           (Some (example_document (VStr []) (VStr ''glrt-new''))))
                        (start (example_params\<lparr>state := ''absent''\<rparr>) example_bin
                           (example_world (Some ''text''))))))
     = [([VStr ''/usr/bin/gitlab-runner'', VStr ''status''], None),
        ([VStr ''/usr/bin/gitlab-runner'', VStr ''unregister'', VStr ''--name'', VStr ''host1''],
         None)]"
  by (simp add: model_defs example_defs Let_def commands_run_def map_filter_def)

end
